theory Spec2Isabelle
  imports Main "HOL-Library.Product_Lexorder"
begin

unbundle bit_operations_syntax

section \<open>The Trezor client base of lbryum (plugins/trezor/clientbase.py)\<close>

text \<open>
  The module is Python 2 (it calls \<^verbatim>\<open>cmp\<close>). Its two classes, \<^verbatim>\<open>GuiMixin\<close> and
  \<^verbatim>\<open>TrezorClientBase\<close>, are embedded as functions over an explicit client state.
  A method that can raise returns a pair: the outcome (\<open>Inl\<close> the exception, \<open>Inr\<close>
  the value) and the client state it leaves behind, since an attribute assigned before
  a raise stays assigned.
\<close>

subsection \<open>Python values and exceptions\<close>

text \<open>
  The exceptions the module raises itself or receives from the built-ins it calls.
  \<open>SilentException\<close> is the class imported from \<^verbatim>\<open>lbryum.util\<close>;
  \<open>RuntimeError\<close> carries its argument; \<open>ValueError\<close> carries the literal that
  \<^verbatim>\<open>int()\<close> rejected; \<open>TypeError\<close> and \<open>FormatError\<close> (a \<^verbatim>\<open>ValueError\<close> of the
  \<^verbatim>\<open>%\<close> operator) carry the interpreter's message; \<open>AttributeError\<close> and
  \<open>KeyError\<close> carry the missing name; \<open>OtherException\<close> stands for anything the
  external collaborators (transport, protocol layer) raise.
\<close>

datatype exn =
    SilentException
  | RuntimeError string
  | ValueError string
  | TypeError string
  | FormatError string
  | AttributeError string
  | KeyError string
  | OtherException string

datatype pyval = PyNone | PyBool bool | PyInt int | PyStr string | PyList "pyval list"

subsection \<open>String built-ins\<close>

definition quote :: char where
  "quote = CHR 0x27"

text \<open>\<^verbatim>\<open>s.split(sep)\<close> for a one-character separator: never an empty list.\<close>

fun py_split :: "char \<Rightarrow> string \<Rightarrow> string list" where
  "py_split sep [] = [[]]"
| "py_split sep (c # cs) =
     (if c = sep then [] # py_split sep cs
      else (case py_split sep cs of
              [] \<Rightarrow> [[c]]
            | w # ws \<Rightarrow> (c # w) # ws))"

definition endswith :: "string \<Rightarrow> char \<Rightarrow> bool" where
  "endswith x c = (case rev x of [] \<Rightarrow> False | d # _ \<Rightarrow> d = c)"

definition startswith :: "string \<Rightarrow> char \<Rightarrow> bool" where
  "startswith x c = (case x of [] \<Rightarrow> False | d # _ \<Rightarrow> d = c)"

text \<open>\<^verbatim>\<open>x.replace(c, '')\<close>: every occurrence of the character is removed.\<close>

definition remove_char :: "char \<Rightarrow> string \<Rightarrow> string" where
  "remove_char c x = filter (\<lambda>d. d \<noteq> c) x"

definition isspace :: "char \<Rightarrow> bool" where
  "isspace c = (c \<in> set [CHR '' '', CHR 0x09, CHR 0x0A, CHR 0x0B, CHR 0x0C, CHR 0x0D])"

definition isdigit :: "char \<Rightarrow> bool" where
  "isdigit c = (48 \<le> (of_char c :: nat) \<and> (of_char c :: nat) \<le> 57)"

definition digit_val :: "char \<Rightarrow> int" where
  "digit_val c = int (of_char c) - 48"

fun digits_value :: "string \<Rightarrow> int \<Rightarrow> int" where
  "digits_value [] acc = acc"
| "digits_value (c # cs) acc = digits_value cs (10 * acc + digit_val c)"

text \<open>
  \<^verbatim>\<open>int(s)\<close> of a byte string in base 10, as CPython 2.7 reads it: white space, an
  optional sign, white space again (Python 2 allows it between the sign and the digits),
  at least one digit, white space; anything else is a \<^verbatim>\<open>ValueError\<close>. Python's integers
  are unbounded, and so is \<open>int\<close>. The suffix \<^verbatim>\<open>L\<close> that CPython 2 accepts on a literal
  beyond the machine word is not modelled.
\<close>

definition py_int :: "string \<Rightarrow> exn + int" where
  "py_int s =
     (let s1 = dropWhile isspace s;
          neg = startswith s1 (CHR ''-'');
          s2 = (if startswith s1 (CHR ''-'') \<or> startswith s1 (CHR ''+'') then tl s1 else s1);
          s3 = dropWhile isspace s2;
          ds = takeWhile isdigit s3;
          rest = dropWhile isspace (dropWhile isdigit s3)
      in if ds = [] \<or> rest \<noteq> [] then Inl (ValueError s)
         else Inr (if neg then - digits_value ds 0 else digits_value ds 0))"

subsection \<open>expand_path\<close>

definition PRIME_DERIVATION_FLAG :: int where
  "PRIME_DERIVATION_FLAG = 0x80000000"

text \<open>
  The body of the \<^verbatim>\<open>for\<close> loop of \<^verbatim>\<open>expand_path\<close>, with the list \<^verbatim>\<open>path\<close> built so
  far as accumulator. A component that \<^verbatim>\<open>int()\<close> rejects ends the call with its
  \<^verbatim>\<open>ValueError\<close>.
\<close>

fun expand_path_loop :: "string list \<Rightarrow> int list \<Rightarrow> exn + int list" where
  "expand_path_loop [] path = Inr path"
| "expand_path_loop (x # xs) path =
     (let prime0 = 0;
          x1 = (if endswith x quote then remove_char quote x else x);
          prime1 = (if endswith x quote then PRIME_DERIVATION_FLAG else prime0);
          prime2 = (if startswith x1 (CHR ''-'') then PRIME_DERIVATION_FLAG else prime1)
      in case py_int x1 of
           Inl e \<Rightarrow> Inl e
         | Inr v \<Rightarrow> expand_path_loop xs (path @ [\<bar>v\<bar> OR prime2]))"

definition expand_path :: "string \<Rightarrow> exn + int list" where
  "expand_path n = expand_path_loop (drop 1 (py_split (CHR ''/'') n)) []"

text \<open>
  The specification's description of \<^verbatim>\<open>expand_path\<close>, to compare the loop with:
  a component is hardened when it ends with a quote or starts with a minus sign;
  its index is the absolute value of its number (read without the quotes when it ends
  with one), with the flag set when it is hardened.
\<close>

definition spec_hardened :: "string \<Rightarrow> bool" where
  "spec_hardened x = (endswith x quote \<or> startswith x (CHR ''-''))"

definition spec_component :: "string \<Rightarrow> exn + int" where
  "spec_component x =
     (case py_int (if endswith x quote then remove_char quote x else x) of
        Inl e \<Rightarrow> Inl e
      | Inr v \<Rightarrow> Inr (if spec_hardened x then \<bar>v\<bar> OR 0x80000000 else \<bar>v\<bar>))"

text \<open>The results of a list of computations, or the first exception among them.\<close>

fun first_error :: "(exn + 'a) list \<Rightarrow> exn + 'a list" where
  "first_error [] = Inr []"
| "first_error (Inl e # rs) = Inl e"
| "first_error (Inr v # rs) =
     (case first_error rs of Inl e \<Rightarrow> Inl e | Inr vs \<Rightarrow> Inr (v # vs))"

subsection \<open>The \<^verbatim>\<open>%\<close> operator on strings\<close>

text \<open>\<^verbatim>\<open>str(n)\<close> of an integer: its decimal digits, with a minus sign when negative.\<close>

definition digit_char :: "nat \<Rightarrow> char" where
  "digit_char d = ''0123456789'' ! (d mod 10)"

function str_nat :: "nat \<Rightarrow> string" where
  "str_nat n = (if n < 10 then [digit_char n] else str_nat (n div 10) @ [digit_char (n mod 10)])"
  by pat_completeness auto
termination
  by (relation "measure (\<lambda>n. n)") auto

declare str_nat.simps [simp del]

definition str_int :: "int \<Rightarrow> string" where
  "str_int i = (if i < 0 then CHR ''-'' # str_nat (nat (- i)) else str_nat (nat i))"

datatype fmt_arg = FmtStr string | FmtInt int

definition prepend :: "string \<Rightarrow> exn + string \<Rightarrow> exn + string" where
  "prepend p r = (case r of Inl e \<Rightarrow> Inl e | Inr t \<Rightarrow> Inr (p @ t))"

text \<open>
  \<^verbatim>\<open>template % args\<close>, for the conversions the module's templates use: \<^verbatim>\<open>%s\<close>,
  \<^verbatim>\<open>%d\<close> and the escape \<^verbatim>\<open>%%\<close>. The template is read from the left; each conversion
  takes the next argument; too few or too many arguments are a \<^verbatim>\<open>TypeError\<close>, as is a
  string given to \<^verbatim>\<open>%d\<close>. Flags, widths and the other conversion types do not occur in
  the module; the model reports them as an unsupported format character.
\<close>

fun py_format :: "string \<Rightarrow> fmt_arg list \<Rightarrow> exn + string" where
  "py_format [] args =
     (if args = [] then Inr []
      else Inl (TypeError ''not all arguments converted during string formatting''))"
| "py_format (c # cs) args =
     (if c \<noteq> CHR ''%'' then prepend [c] (py_format cs args)
      else (case cs of
              [] \<Rightarrow> Inl (FormatError ''incomplete format'')
            | d # ds \<Rightarrow>
                if d = CHR ''%'' then prepend ''%'' (py_format ds args)
                else if d = CHR ''s'' then
                  (case args of
                     [] \<Rightarrow> Inl (TypeError ''not enough arguments for format string'')
                   | FmtStr a # rest \<Rightarrow> prepend a (py_format ds rest)
                   | FmtInt i # rest \<Rightarrow> prepend (str_int i) (py_format ds rest))
                else if d = CHR ''d'' then
                  (case args of
                     [] \<Rightarrow> Inl (TypeError ''not enough arguments for format string'')
                   | FmtStr a # rest \<Rightarrow>
                       Inl (TypeError ''%d format: a number is required, not str'')
                   | FmtInt i # rest \<Rightarrow> prepend (str_int i) (py_format ds rest))
                else Inl (FormatError ''unsupported format character'')))"

subsection \<open>The message templates\<close>

text \<open>
  Modelled from the spec: the translation function \<^verbatim>\<open>_\<close> of \<^verbatim>\<open>lbryum.i18n\<close> is not
  among the sources. The specification describes the prompts as a fixed table of message
  templates, so \<open>gettext\<close> returns the template it is given.
\<close>

definition gettext :: "string \<Rightarrow> string" where
  "gettext t = t"

text \<open>
  The keys of \<^verbatim>\<open>GuiMixin.messages\<close> are the integer codes of button requests and the
  string tags of the operations that override them.
\<close>

datatype msg_key = IntKey int | StrKey string

definition messages :: "(msg_key \<times> string) list" where
  "messages =
     [(IntKey 3, gettext ''Confirm transaction outputs on %s device to continue''),
      (IntKey 8, gettext ''Confirm transaction fee on %s device to continue''),
      (IntKey 7, gettext ''Confirm message to sign on %s device to continue''),
      (IntKey 10, gettext ''Confirm address on %s device to continue''),
      (StrKey ''change pin'', gettext ''Confirm PIN change on %s device to continue''),
      (StrKey ''default'', gettext ''Check %s device to continue''),
      (StrKey ''homescreen'', gettext ''Confirm home screen change on %s device to continue''),
      (StrKey ''label'', gettext ''Confirm label change on %s device to continue''),
      (StrKey ''remove pin'', gettext ''Confirm removal of PIN on %s device to continue''),
      (StrKey ''passphrase'', gettext ''Confirm on %s device to continue'')]"

text \<open>\<^verbatim>\<open>self.messages.get(k, d)\<close> and \<^verbatim>\<open>self.messages[k]\<close> for a string key.\<close>

definition messages_get :: "msg_key \<Rightarrow> string \<Rightarrow> string" where
  "messages_get k d = (case map_of messages k of None \<Rightarrow> d | Some t \<Rightarrow> t)"

definition messages_item :: "string \<Rightarrow> exn + string" where
  "messages_item k = (case map_of messages (StrKey k) of None \<Rightarrow> Inl (KeyError k) | Some t \<Rightarrow> Inr t)"

subsection \<open>The client state\<close>

text \<open>
  The protocol messages the callbacks receive (with the fields they read) and the
  responses they build through \<^verbatim>\<open>self.proto\<close>. A character request is only handed on
  to the handler; its two positions stand for its content.
\<close>

datatype failure = Failure int string

datatype button_request = ButtonRequest int

datatype pin_matrix_request = PinMatrixRequest int

datatype character_request = CharacterRequest int int

datatype response =
    ButtonAck
  | Cancel
  | PinMatrixAck string
  | PassphraseAck string
  | WordAck string
  | CharacterAck "(string \<times> pyval) list"

text \<open>
  What the client does to its collaborators is recorded in a trace, in order: the calls
  of the handler's methods, the lines given to \<^verbatim>\<open>print_error\<close>. An argument of
  \<^verbatim>\<open>print_error\<close> is a string literal, the client itself, or \<^verbatim>\<open>str(e)\<close> of an
  exception.
\<close>

datatype print_arg = ArgStr string | ArgSelf | ArgStrOf exn

datatype event =
    ShowMessage string
  | GetPin string
  | GetPassphrase string
  | GetWord string
  | GetChar character_request
  | Finished
  | PrintError "print_arg list"

text \<open>
  The handler is the wallet's; the module only calls it. Its answers are taken as the
  specification's contract types them: \<^verbatim>\<open>get_pin\<close> and \<^verbatim>\<open>get_passphrase\<close> return a
  string or \<^verbatim>\<open>None\<close>, \<^verbatim>\<open>get_word\<close> a string, \<^verbatim>\<open>get_char\<close> a dictionary of fields or
  \<^verbatim>\<open>None\<close>; \<^verbatim>\<open>show_message\<close> and \<^verbatim>\<open>finished\<close> return nothing.
\<close>

record handler =
  get_pin :: "string \<Rightarrow> string option"
  get_passphrase :: "string \<Rightarrow> string option"
  get_word :: "string \<Rightarrow> string"
  get_char :: "character_request \<Rightarrow> (string \<times> pyval) list option"

record features =
  label :: string
  device_id :: string
  initialized :: bool
  passphrase_protection :: bool
  major_version :: int
  minor_version :: int
  patch_version :: int

text \<open>
  \<^verbatim>\<open>self.types\<close> comes from the plugin; of its constants the module reads the two
  failure codes of a cancellation.
\<close>

record failure_types =
  Failure_PinCancelled :: int
  Failure_ActionCancelled :: int

text \<open>
  The attributes of a client. \<^verbatim>\<open>step\<close> is assigned by the caller that starts a
  recovery, \<^verbatim>\<open>features\<close> by the protocol layer.
\<close>

record client =
  device :: string
  types :: failure_types
  handler :: handler
  msg_code_override :: "string option"
  step :: int
  features :: features
  trace :: "event list"

definition emit :: "event \<Rightarrow> client \<Rightarrow> client" where
  "emit ev s = s\<lparr>trace := trace s @ [ev]\<rparr>"

text \<open>
  Modelled from the spec: \<^verbatim>\<open>print_error\<close> is inherited from \<^verbatim>\<open>lbryum.util.PrintError\<close>,
  which is not among the sources. The specification says that the exception of a failed
  session clear is logged; the model records the arguments of the call.
\<close>

definition print_error :: "print_arg list \<Rightarrow> client \<Rightarrow> client" where
  "print_error args s = emit (PrintError args) s"

subsection \<open>GuiMixin: the callbacks\<close>

text \<open>A callback returns the response for the device, or raises.\<close>

type_synonym callback_result = "(exn + response) \<times> client"

fun callback_Failure :: "client \<Rightarrow> failure \<Rightarrow> callback_result" where
  "callback_Failure s (Failure code message) =
     (if code = Failure_PinCancelled (types s) \<or> code = Failure_ActionCancelled (types s)
      then (Inl SilentException, s)
      else (Inl (RuntimeError message), s))"

text \<open>
  \<^verbatim>\<open>self.msg_code_override or msg.code\<close>: Python's \<^verbatim>\<open>or\<close> gives its left operand when
  that is true, and \<^verbatim>\<open>None\<close> and the empty string are false.
\<close>

definition override_or_code :: "string option \<Rightarrow> int \<Rightarrow> msg_key" where
  "override_or_code ov code =
     (case ov of
        None \<Rightarrow> IntKey code
      | Some tag \<Rightarrow> if tag = [] then IntKey code else StrKey tag)"

fun callback_ButtonRequest :: "client \<Rightarrow> button_request \<Rightarrow> callback_result" where
  "callback_ButtonRequest s (ButtonRequest code) =
     (let msg_code = override_or_code (msg_code_override s) code
      in case messages_item ''default'' of
           Inl e \<Rightarrow> (Inl e, s)
         | Inr dflt \<Rightarrow>
             (case py_format (messages_get msg_code dflt) [FmtStr (device s)] of
                Inl e \<Rightarrow> (Inl e, s)
              | Inr message \<Rightarrow> (Inr ButtonAck, emit (ShowMessage message) s)))"

text \<open>The prompt template a PIN matrix request selects by its type.\<close>

definition pin_matrix_message :: "int \<Rightarrow> string" where
  "pin_matrix_message ty =
     (if ty = 1 then gettext ''Enter your current %s PIN:''
      else if ty = 2 then gettext ''Enter a new %s PIN:''
      else if ty = 3 then
        gettext (''Please re-enter your new %s PIN.'' @ [CHR 0x0A]
                 @ ''Note the numbers have been shuffled!'')
      else gettext ''Please enter %s PIN'')"

fun callback_PinMatrixRequest :: "client \<Rightarrow> pin_matrix_request \<Rightarrow> callback_result" where
  "callback_PinMatrixRequest s (PinMatrixRequest ty) =
     (let msg = pin_matrix_message ty
      in case py_format msg [FmtStr (device s)] of
           Inl e \<Rightarrow> (Inl e, s)
         | Inr prompt \<Rightarrow>
             (case get_pin (handler s) prompt of
                None \<Rightarrow> (Inr Cancel, emit (GetPin prompt) s)
              | Some pin \<Rightarrow>
                  if pin = [] then (Inr Cancel, emit (GetPin prompt) s)
                  else (Inr (PinMatrixAck pin), emit (GetPin prompt) s)))"

definition callback_PassphraseRequest :: "client \<Rightarrow> callback_result" where
  "callback_PassphraseRequest s =
     (let msg = gettext ''Please enter your %s passphrase''
      in case py_format msg [FmtStr (device s)] of
           Inl e \<Rightarrow> (Inl e, s)
         | Inr prompt \<Rightarrow>
             (case get_passphrase (handler s) prompt of
                None \<Rightarrow> (Inr Cancel, emit (GetPassphrase prompt) s)
              | Some passphrase \<Rightarrow>
                  (Inr (PassphraseAck passphrase), emit (GetPassphrase prompt) s)))"

definition callback_WordRequest :: "client \<Rightarrow> callback_result" where
  "callback_WordRequest s =
     (let s1 = s\<lparr>step := step s + 1\<rparr>
      in case py_format (gettext ''Step %d/24.  Enter seed word as explained on your %s:'')
                [FmtInt (step s1), FmtStr (device s1)] of
           Inl e \<Rightarrow> (Inl e, s1)
         | Inr msg \<Rightarrow> (Inr (WordAck (get_word (handler s1) msg)), emit (GetWord msg) s1))"

definition callback_CharacterRequest :: "client \<Rightarrow> character_request \<Rightarrow> callback_result" where
  "callback_CharacterRequest s msg =
     (case get_char (handler s) msg of
        None \<Rightarrow> (Inr Cancel, emit (GetChar msg) s)
      | Some char_info \<Rightarrow>
          if char_info = [] then (Inr Cancel, emit (GetChar msg) s)
          else (Inr (CharacterAck char_info), emit (GetChar msg) s))"

subsection \<open>TrezorClientBase\<close>

text \<open>
  The operations of the protocol layer (\<^verbatim>\<open>apply_settings\<close>, \<^verbatim>\<open>change_pin\<close>,
  \<^verbatim>\<open>get_address\<close>, the inherited \<^verbatim>\<open>clear_session\<close>) and of the transport are
  inherited or injected, not defined in the module. Each is a parameter of the method
  that calls it: any function from the positional and keyword arguments and the client
  state to an outcome and a new client state.
\<close>

type_synonym py_action = "client \<Rightarrow> (exn + pyval) \<times> client"

type_synonym py_method = "pyval list \<Rightarrow> (string \<times> pyval) list \<Rightarrow> py_action"

text \<open>
  \<^verbatim>\<open>try: body finally: cleanup\<close>, for a cleanup that is an assignment or a call of the
  handler: it runs after the body whether the body returned or raised, and the body's
  outcome stands.
\<close>

definition try_finally :: "py_action \<Rightarrow> (client \<Rightarrow> client) \<Rightarrow> py_action" where
  "try_finally body cleanup s = (case body s of (r, s') \<Rightarrow> (r, cleanup s'))"

text \<open>A method without a \<^verbatim>\<open>return\<close> statement returns \<^verbatim>\<open>None\<close>.\<close>

definition returns_none :: "(exn + pyval) \<times> client \<Rightarrow> (exn + pyval) \<times> client" where
  "returns_none r = (case r of (Inl e, s) \<Rightarrow> (Inl e, s) | (Inr v, s) \<Rightarrow> (Inr PyNone, s))"

definition client_str :: "client \<Rightarrow> exn + string" where
  "client_str s = py_format ''%s/%s'' [FmtStr (label (features s)), FmtStr (device_id (features s))]"

definition client_label :: "client \<Rightarrow> string" where
  "client_label s = label (features s)"

definition is_initialized :: "client \<Rightarrow> bool" where
  "is_initialized s = initialized (features s)"

definition address_from_derivation :: "py_method \<Rightarrow> string \<Rightarrow> py_action" where
  "address_from_derivation get_address derivation s =
     (case expand_path derivation of
        Inl e \<Rightarrow> (Inl e, s)
      | Inr path \<Rightarrow> get_address [PyStr ''Bitcoin'', PyList (map PyInt path)] [] s)"

definition first_address :: "py_method \<Rightarrow> string \<Rightarrow> py_action" where
  "first_address get_address derivation s = address_from_derivation get_address derivation s"

definition toggle_passphrase :: "py_method \<Rightarrow> py_action" where
  "toggle_passphrase apply_settings s =
     returns_none
       (try_finally
          (\<lambda>t. let enabled = \<not> passphrase_protection (features t)
               in apply_settings [] [(''use_passphrase'', PyBool enabled)] t)
          (\<lambda>t. t\<lparr>msg_code_override := None\<rparr>)
          (s\<lparr>msg_code_override := Some ''passphrase''\<rparr>))"

definition change_label :: "py_method \<Rightarrow> string \<Rightarrow> py_action" where
  "change_label apply_settings lbl s =
     returns_none
       (try_finally
          (apply_settings [] [(''label'', PyStr lbl)])
          (\<lambda>t. t\<lparr>msg_code_override := None\<rparr>)
          (s\<lparr>msg_code_override := Some ''label''\<rparr>))"

definition change_homescreen :: "py_method \<Rightarrow> string \<Rightarrow> py_action" where
  "change_homescreen apply_settings homescreen s =
     returns_none
       (try_finally
          (apply_settings [] [(''homescreen'', PyStr homescreen)])
          (\<lambda>t. t\<lparr>msg_code_override := None\<rparr>)
          (s\<lparr>msg_code_override := Some ''homescreen''\<rparr>))"

definition set_pin :: "py_method \<Rightarrow> bool \<Rightarrow> py_action" where
  "set_pin change_pin remove s =
     returns_none
       (try_finally
          (change_pin [PyBool remove] [])
          (\<lambda>t. t\<lparr>msg_code_override := None\<rparr>)
          (s\<lparr>msg_code_override := Some (if remove then ''remove pin'' else ''change pin'')\<rparr>))"

text \<open>
  \<^verbatim>\<open>clear_session\<close>: the inherited method is called inside \<^verbatim>\<open>try\<close>, and
  \<^verbatim>\<open>except BaseException\<close> catches whatever it raises.
\<close>

definition clear_session :: "py_action \<Rightarrow> py_action" where
  "clear_session super_clear_session s =
     (case super_clear_session (print_error [ArgStr ''clear session:'', ArgSelf] s) of
        (Inr v, s') \<Rightarrow> (Inr PyNone, s')
      | (Inl e, s') \<Rightarrow>
          (Inr PyNone, print_error [ArgStr ''clear_session: ignoring error'', ArgStrOf e] s'))"

definition close :: "py_action \<Rightarrow> py_action \<Rightarrow> py_action" where
  "close super_clear_session transport_close s =
     (case clear_session super_clear_session (print_error [ArgStr ''closing client''] s) of
        (Inl e, s') \<Rightarrow> (Inl e, s')
      | (Inr v, s') \<Rightarrow> returns_none (transport_close s'))"

definition firmware_version :: "client \<Rightarrow> int \<times> int \<times> int" where
  "firmware_version s =
     (major_version (features s), minor_version (features s), patch_version (features s))"

text \<open>
  Python 2's \<^verbatim>\<open>cmp\<close>: on integers it is \<open>-1\<close>, \<open>0\<close> or \<open>1\<close>; on two tuples of the
  same length it is \<^verbatim>\<open>cmp\<close> of the first pair of items that differ, and \<open>0\<close> when
  none does.
\<close>

definition cmp_int :: "int \<Rightarrow> int \<Rightarrow> int" where
  "cmp_int a b = (if a < b then - 1 else if a = b then 0 else 1)"

fun cmp_triple :: "int \<times> int \<times> int \<Rightarrow> int \<times> int \<times> int \<Rightarrow> int" where
  "cmp_triple (a1, a2, a3) (b1, b2, b3) =
     (if a1 \<noteq> b1 then cmp_int a1 b1
      else if a2 \<noteq> b2 then cmp_int a2 b2
      else cmp_int a3 b3)"

definition atleast_version :: "client \<Rightarrow> int \<Rightarrow> int \<Rightarrow> int \<Rightarrow> int" where
  "atleast_version s major minor patch = cmp_triple (firmware_version s) (major, minor, patch)"

text \<open>
  \<^verbatim>\<open>wrapper(func)\<close>: the wrapped method calls \<^verbatim>\<open>func\<close> with its own arguments and,
  in \<^verbatim>\<open>finally\<close>, \<^verbatim>\<open>self.handler.finished()\<close>.
\<close>

definition handler_finished :: "client \<Rightarrow> client" where
  "handler_finished s = emit Finished s"

definition wrapper :: "py_method \<Rightarrow> py_method" where
  "wrapper func = (\<lambda>args kwargs. try_finally (func args kwargs) handler_finished)"

text \<open>
  A class, for \<^verbatim>\<open>wrap_methods\<close>: what \<^verbatim>\<open>getattr(cls, name)\<close> finds. The loop
  replaces the listed methods one after the other; a name the class does not have
  raises \<^verbatim>\<open>AttributeError\<close> and leaves the earlier replacements in place.
\<close>

type_synonym py_class = "string \<Rightarrow> py_method option"

definition wrapped_method_names :: "string list" where
  "wrapped_method_names =
     [''apply_settings'', ''change_pin'', ''decrypt_message'',
      ''get_address'', ''get_public_node'',
      ''load_device_by_mnemonic'', ''load_device_by_xprv'',
      ''recovery_device'', ''reset_device'', ''sign_message'',
      ''sign_tx'', ''wipe_device'']"

fun wrap_methods_loop :: "string list \<Rightarrow> py_class \<Rightarrow> (exn + pyval) \<times> py_class" where
  "wrap_methods_loop [] cls = (Inr PyNone, cls)"
| "wrap_methods_loop (m # ms) cls =
     (case cls m of
        None \<Rightarrow> (Inl (AttributeError m), cls)
      | Some func \<Rightarrow> wrap_methods_loop ms (cls(m \<mapsto> wrapper func)))"

definition wrap_methods :: "py_class \<Rightarrow> (exn + pyval) \<times> py_class" where
  "wrap_methods cls = wrap_methods_loop wrapped_method_names cls"

subsection \<open>What the wallet shows of an exception\<close>

text \<open>
  Modelled from the spec: what happens to an exception that unwinds an operation is
  decided by the callers of the client and by \<^verbatim>\<open>lbryum.util\<close>, where
  \<^verbatim>\<open>SilentException\<close> is declared; neither is among the sources. The specification's
  error taxonomy says that a silent cancellation unwinds the current operation without
  surfacing as a user-visible error and without being logged as a failure, and that any
  other failure is surfaced to the caller carrying its message text. \<open>surfaced_error\<close>
  is the text the user is shown for an exception, if any.
\<close>

fun exn_text :: "exn \<Rightarrow> string" where
  "exn_text SilentException = []"
| "exn_text (RuntimeError m) = m"
| "exn_text (ValueError m) = m"
| "exn_text (TypeError m) = m"
| "exn_text (FormatError m) = m"
| "exn_text (AttributeError m) = m"
| "exn_text (KeyError m) = m"
| "exn_text (OtherException m) = m"

definition surfaced_error :: "exn \<Rightarrow> string option" where
  "surfaced_error e = (if e = SilentException then None else Some (exn_text e))"

subsection \<open>A client and collaborators for the examples\<close>

text \<open>
  A handler whose user types the PIN 1234, confirms an empty passphrase, enters the word
  ``abandon'' and declines the character prompt; a client of a device named TREZOR with
  firmware 1.3.4, passphrase protection off, and the failure codes of the Trezor protocol.
\<close>

definition example_handler :: handler where
  "example_handler =
     \<lparr>get_pin = (\<lambda>prompt. Some ''1234''),
      get_passphrase = (\<lambda>prompt. Some []),
      get_word = (\<lambda>prompt. ''abandon''),
      get_char = (\<lambda>msg. None)\<rparr>"

definition example_client :: client where
  "example_client =
     \<lparr>device = ''TREZOR'',
      types = \<lparr>Failure_PinCancelled = 6, Failure_ActionCancelled = 4\<rparr>,
      handler = example_handler,
      msg_code_override = None,
      step = 0,
      features =
        \<lparr>label = ''savings'', device_id = ''A1'', initialized = True,
         passphrase_protection = False,
         major_version = 1, minor_version = 3, patch_version = 4\<rparr>,
      trace = []\<rparr>"

text \<open>
  Three stand-ins for operations of the protocol layer: one returns, one raises, and one
  has the device ask for a button confirmation before it returns, as the settings
  operations do.
\<close>

definition op_returns :: py_method where
  "op_returns args kwargs s = (Inr (PyStr ''ok''), s)"

definition op_raises :: py_method where
  "op_raises args kwargs s = (Inl (OtherException ''device removed''), s)"

definition op_confirms :: py_method where
  "op_confirms args kwargs s =
     (case callback_ButtonRequest s (ButtonRequest 0) of
        (Inl e, s') \<Rightarrow> (Inl e, s')
      | (Inr ack, s') \<Rightarrow> (Inr (PyList (map snd kwargs)), s'))"

text \<open>
  A stand-in that makes its call visible in the trace: it shows the override it runs
  under and the arguments it was given, then returns.
\<close>

fun show_pyval :: "pyval \<Rightarrow> string" where
  "show_pyval PyNone = ''None''"
| "show_pyval (PyBool b) = (if b then ''True'' else ''False'')"
| "show_pyval (PyInt i) = str_int i"
| "show_pyval (PyStr t) = t"
| "show_pyval (PyList vs) = ''list''"

definition op_echo :: py_method where
  "op_echo args kwargs s =
     (Inr PyNone,
      s\<lparr>trace := trace s
           @ [ShowMessage (case msg_code_override s of None \<Rightarrow> ''None'' | Some tag \<Rightarrow> tag)]
           @ map (\<lambda>v. ShowMessage (show_pyval v)) args
           @ map (\<lambda>(k, v). ShowMessage (k @ ''='' @ show_pyval v)) kwargs\<rparr>)"

definition example_class :: py_class where
  "example_class name = (if name = ''sign_tx'' then Some op_raises else Some op_returns)"

section \<open>Properties\<close>

subsection \<open>Derivation paths\<close>

lemma expand_path_loop_spec:
  "expand_path_loop xs path =
     (case first_error (map spec_component xs) of
        Inl e \<Rightarrow> Inl e
      | Inr ys \<Rightarrow> Inr (path @ ys))"
proof (induction xs arbitrary: path)
  case Nil
  show ?case by simp
next
  case (Cons x xs)
  show ?case
  proof (cases "endswith x quote")
    case True
    then show ?thesis
      by (simp add: Cons.IH spec_component_def spec_hardened_def PRIME_DERIVATION_FLAG_def
          split: sum.splits)
  next
    case False
    then show ?thesis
      by (simp add: Cons.IH spec_component_def spec_hardened_def PRIME_DERIVATION_FLAG_def
          split: sum.splits)
  qed
qed

text \<open>
  C7. \<^verbatim>\<open>expand_path\<close> splits the path at the slashes, drops the first segment and maps
  every other component to the absolute value of its number, with the bit
  \<open>0x80000000\<close> set when the component ends with a quote or starts with a minus sign
  (the first component that is not a number raises its \<^verbatim>\<open>ValueError\<close>); and
  \<^verbatim>\<open>expand_path("m/0/1'/-2")\<close> is \<open>[0, 0x80000001, 0x80000002]\<close>.
\<close>

theorem expand_path_components:
  "expand_path n = first_error (map spec_component (tl (py_split (CHR ''/'') n)))
   \<and> expand_path (''m/0/1'' @ [quote] @ ''/-2'') = Inr [0, 0x80000001, 0x80000002]"
proof
  show "expand_path n = first_error (map spec_component (tl (py_split (CHR ''/'') n)))"
    by (simp add: expand_path_def expand_path_loop_spec drop_Suc split: sum.splits)
  show "expand_path (''m/0/1'' @ [quote] @ ''/-2'') = Inr [0, 0x80000001, 0x80000002]"
    by (simp add: expand_path_def quote_def endswith_def startswith_def remove_char_def
        py_int_def isspace_def isdigit_def digit_val_def PRIME_DERIVATION_FLAG_def)
qed

theorem expand_path_components_witness:
  "expand_path (''44'' @ [quote] @ ''/7/-0/ 12'') = Inr [7, 0x80000000, 12]"
  using expand_path_components [of "''44'' @ [quote] @ ''/7/-0/ 12''"]
  by (simp add: quote_def endswith_def startswith_def remove_char_def spec_component_def
      spec_hardened_def py_int_def isspace_def isdigit_def digit_val_def)

subsection \<open>Formatting\<close>

lemma prepend_Inr [simp]: "prepend p (Inr t) = Inr (p @ t)"
  by (simp add: prepend_def)

lemma messages_cases:
  "map_of messages k = Some t \<Longrightarrow> \<exists>m. py_format t [FmtStr d] = Inr m"
  by (auto simp add: messages_def gettext_def split: if_splits)

lemma messages_default: "messages_item ''default'' = Inr ''Check %s device to continue''"
  by (simp add: messages_item_def messages_def gettext_def)

lemma default_format: "\<exists>m. py_format ''Check %s device to continue'' [FmtStr d] = Inr m"
  by simp

lemma pin_format: "\<exists>m. py_format (pin_matrix_message ty) [FmtStr d] = Inr m"
  by (simp add: pin_matrix_message_def gettext_def)

lemma word_format:
  "py_format (gettext ''Step %d/24.  Enter seed word as explained on your %s:'')
     [FmtInt n, FmtStr d]
   = Inr (''Step '' @ str_int n @ ''/24.  Enter seed word as explained on your '' @ d @ '':'')"
  by (simp add: gettext_def)

subsection \<open>Decimal numerals: \<^verbatim>\<open>int(str(n))\<close> is \<open>n\<close>\<close>

lemma digit_char_cases: "digit_char d \<in> set ''0123456789''"
proof -
  have "d mod 10 < length ''0123456789''" by simp
  then show ?thesis unfolding digit_char_def by (rule nth_mem)
qed

lemma isdigit_digit_char: "isdigit (digit_char d)"
  using digit_char_cases [of d] by (auto simp: isdigit_def)

lemma not_isspace_digit_char: "\<not> isspace (digit_char d)"
  using digit_char_cases [of d] by (auto simp: isspace_def)

lemma digit_char_not_sign: "digit_char d \<noteq> CHR ''-''" "digit_char d \<noteq> CHR ''+''"
  using digit_char_cases [of d] by auto

lemma digit_val_digit_char: "digit_val (digit_char d) = int (d mod 10)"
proof -
  define k where "k = d mod 10"
  have "k < 10" by (simp add: k_def)
  then have "k = 0 \<or> k = 1 \<or> k = 2 \<or> k = 3 \<or> k = 4 \<or> k = 5 \<or> k = 6 \<or> k = 7 \<or> k = 8 \<or> k = 9"
    by arith
  then have "digit_val (''0123456789'' ! k) = int k"
    by (auto simp: digit_val_def)
  then show ?thesis by (simp add: digit_char_def k_def)
qed

lemma digits_value_snoc: "digits_value (xs @ [c]) acc = 10 * digits_value xs acc + digit_val c"
  by (induction xs arbitrary: acc) simp_all

lemma str_nat_nonempty: "str_nat n \<noteq> []"
  by (induction n rule: str_nat.induct) (subst str_nat.simps, simp)

lemma str_nat_all_digits: "c \<in> set (str_nat n) \<Longrightarrow> \<exists>d. c = digit_char d"
proof (induction n rule: str_nat.induct)
  case (1 n)
  show ?case
  proof (cases "n < 10")
    case True
    with "1.prems" show ?thesis by (subst (asm) str_nat.simps) auto
  next
    case False
    with "1.prems" have "c \<in> set (str_nat (n div 10)) \<or> c = digit_char (n mod 10)"
      by (subst (asm) str_nat.simps) auto
    with "1.IH" False show ?thesis by auto
  qed
qed

lemma digits_value_str_nat: "digits_value (str_nat n) 0 = int n"
proof (induction n rule: str_nat.induct)
  case (1 n)
  show ?case
  proof (cases "n < 10")
    case True
    then show ?thesis by (subst str_nat.simps) (simp add: digit_val_digit_char)
  next
    case False
    then have "digits_value (str_nat n) 0
                 = 10 * digits_value (str_nat (n div 10)) 0 + int (n mod 10)"
      by (subst str_nat.simps) (simp add: digits_value_snoc digit_val_digit_char)
    also have "\<dots> = 10 * int (n div 10) + int (n mod 10)" using "1.IH" False by simp
    also have "\<dots> = int n" by presburger
    finally show ?thesis .
  qed
qed

lemma str_nat_scan:
  "takeWhile isdigit (str_nat n) = str_nat n"
  "dropWhile isdigit (str_nat n) = []"
  "dropWhile isspace (str_nat n) = str_nat n"
  "\<not> startswith (str_nat n) (CHR ''-'')"
  "\<not> startswith (str_nat n) (CHR ''+'')"
proof -
  obtain c cs where cs: "str_nat n = c # cs"
    using str_nat_nonempty [of n] by (cases "str_nat n") auto
  have alld: "\<forall>x \<in> set (str_nat n). isdigit x"
    using str_nat_all_digits isdigit_digit_char by blast
  have c: "\<not> isspace c" "c \<noteq> CHR ''-''" "c \<noteq> CHR ''+''"
    using str_nat_all_digits [of c n] cs not_isspace_digit_char digit_char_not_sign
    by auto
  show "takeWhile isdigit (str_nat n) = str_nat n" "dropWhile isdigit (str_nat n) = []"
    using alld by (simp_all add: takeWhile_eq_all_conv)
  show "dropWhile isspace (str_nat n) = str_nat n" using c cs by simp
  show "\<not> startswith (str_nat n) (CHR ''-'')" "\<not> startswith (str_nat n) (CHR ''+'')"
    using c cs by (simp_all add: startswith_def)
qed

lemma py_int_str_int: "py_int (str_int i) = Inr i"
proof (cases "i < 0")
  case False
  then show ?thesis
    using str_nat_nonempty [of "nat i"]
    by (simp add: str_int_def py_int_def Let_def str_nat_scan digits_value_str_nat)
next
  case True
  have sp: "\<not> isspace (CHR ''-'')" by (simp add: isspace_def)
  show ?thesis
    using True str_nat_nonempty [of "nat (- i)"]
    by (simp add: str_int_def py_int_def Let_def startswith_def sp str_nat_scan
        digits_value_str_nat)
qed

subsection \<open>Failure reports\<close>

text \<open>
  C1. A failure report always unwinds: \<^verbatim>\<open>callback_Failure\<close> raises and leaves the
  client, its trace included, as it was. When the code of the report is one of the two
  cancellation codes of \<^verbatim>\<open>self.types\<close> (PIN cancelled, action cancelled) the
  exception is \<^verbatim>\<open>SilentException\<close>, of which the wallet shows the user nothing; for
  any other code it is \<^verbatim>\<open>RuntimeError\<close> with the message of the report, and the
  text the wallet shows is exactly that message.
\<close>

theorem callback_Failure_raises:
  "(code = Failure_PinCancelled (types s) \<or> code = Failure_ActionCancelled (types s)
      \<longrightarrow> callback_Failure s (Failure code message) = (Inl SilentException, s))
   \<and> (code \<noteq> Failure_PinCancelled (types s) \<and> code \<noteq> Failure_ActionCancelled (types s)
      \<longrightarrow> callback_Failure s (Failure code message) = (Inl (RuntimeError message), s))
   \<and> (\<exists>e. fst (callback_Failure s (Failure code message)) = Inl e
          \<and> surfaced_error e =
              (if code = Failure_PinCancelled (types s) \<or> code = Failure_ActionCancelled (types s)
               then None else Some message))
   \<and> trace (snd (callback_Failure s (Failure code message))) = trace s"
  by (simp add: surfaced_error_def)

theorem callback_Failure_raises_witness:
  "callback_Failure example_client (Failure 6 ''PIN cancelled'')
     = (Inl SilentException, example_client)
   \<and> callback_Failure example_client (Failure 4 ''Action cancelled by user'')
     = (Inl SilentException, example_client)
   \<and> callback_Failure example_client (Failure 7 ''Invalid PIN'')
     = (Inl (RuntimeError ''Invalid PIN''), example_client)
   \<and> (\<exists>e. fst (callback_Failure example_client (Failure 6 ''PIN cancelled'')) = Inl e
          \<and> surfaced_error e = None)
   \<and> (\<exists>e. fst (callback_Failure example_client (Failure 7 ''Invalid PIN'')) = Inl e
          \<and> surfaced_error e = Some ''Invalid PIN'')"
  using callback_Failure_raises [of 6 example_client "''PIN cancelled''"]
    callback_Failure_raises [of 4 example_client "''Action cancelled by user''"]
    callback_Failure_raises [of 7 example_client "''Invalid PIN''"]
  by (simp add: example_client_def)


subsection \<open>Button requests\<close>

text \<open>
  C4. A button request always shows one message and is answered with \<^verbatim>\<open>ButtonAck\<close>.
  When the override is set to a tag of the table, the message is that tag's template,
  formatted with the device name, whatever the code of the request; when the override
  is \<^verbatim>\<open>None\<close>, it is the template of the request's code, and the template
  \<^verbatim>\<open>'default'\<close> when the code is not in the table.
\<close>

theorem button_request_message:
  "\<exists>message.
     callback_ButtonRequest s (ButtonRequest code) = (Inr ButtonAck, emit (ShowMessage message) s)
     \<and> (\<forall>tag t. msg_code_override s = Some tag \<longrightarrow> map_of messages (StrKey tag) = Some t
           \<longrightarrow> py_format t [FmtStr (device s)] = Inr message)
     \<and> (\<forall>t. msg_code_override s = None \<longrightarrow> map_of messages (IntKey code) = Some t
           \<longrightarrow> py_format t [FmtStr (device s)] = Inr message)
     \<and> (msg_code_override s = None \<longrightarrow> map_of messages (IntKey code) = None
           \<longrightarrow> py_format (gettext ''Check %s device to continue'') [FmtStr (device s)] = Inr message)"
proof -
  define template where
    "template = messages_get (override_or_code (msg_code_override s) code) ''Check %s device to continue''"
  have "\<exists>m. py_format template [FmtStr (device s)] = Inr m"
  proof (cases "map_of messages (override_or_code (msg_code_override s) code)")
    case None
    then show ?thesis using default_format by (simp add: template_def messages_get_def)
  next
    case (Some t)
    then show ?thesis using messages_cases by (simp add: template_def messages_get_def)
  qed
  then obtain m where m: "py_format template [FmtStr (device s)] = Inr m" by blast
  have call: "callback_ButtonRequest s (ButtonRequest code) = (Inr ButtonAck, emit (ShowMessage m) s)"
    using m by (simp add: messages_default template_def)
  have tagged: "py_format t [FmtStr (device s)] = Inr m"
    if "msg_code_override s = Some tag" "map_of messages (StrKey tag) = Some t" for tag t
  proof -
    have "tag \<noteq> []" using that(2) by (auto simp: messages_def)
    then show ?thesis using that m
      by (simp add: template_def messages_get_def override_or_code_def)
  qed
  have coded: "py_format t [FmtStr (device s)] = Inr m"
    if "msg_code_override s = None" "map_of messages (IntKey code) = Some t" for t
    using that m by (simp add: template_def messages_get_def override_or_code_def)
  have fallback: "py_format (gettext ''Check %s device to continue'') [FmtStr (device s)] = Inr m"
    if "msg_code_override s = None" "map_of messages (IntKey code) = None"
    using that m by (simp add: template_def messages_get_def override_or_code_def gettext_def)
  show ?thesis
  proof (rule exI [of _ m], intro conjI allI impI)
    show "callback_ButtonRequest s (ButtonRequest code) = (Inr ButtonAck, emit (ShowMessage m) s)"
      by (rule call)
  next
    fix tag t
    assume "msg_code_override s = Some tag" "map_of messages (StrKey tag) = Some t"
    then show "py_format t [FmtStr (device s)] = Inr m" by (rule tagged)
  next
    fix t
    assume "msg_code_override s = None" "map_of messages (IntKey code) = Some t"
    then show "py_format t [FmtStr (device s)] = Inr m" by (rule coded)
  next
    assume "msg_code_override s = None" "map_of messages (IntKey code) = None"
    then show "py_format (gettext ''Check %s device to continue'') [FmtStr (device s)] = Inr m"
      by (rule fallback)
  qed
qed

theorem button_request_message_witness:
  "callback_ButtonRequest (example_client\<lparr>msg_code_override := Some ''label''\<rparr>) (ButtonRequest 8)
     = (Inr ButtonAck,
        emit (ShowMessage ''Confirm label change on TREZOR device to continue'')
          (example_client\<lparr>msg_code_override := Some ''label''\<rparr>))
   \<and> callback_ButtonRequest example_client (ButtonRequest 8)
     = (Inr ButtonAck,
        emit (ShowMessage ''Confirm transaction fee on TREZOR device to continue'') example_client)
   \<and> callback_ButtonRequest example_client (ButtonRequest 5)
     = (Inr ButtonAck, emit (ShowMessage ''Check TREZOR device to continue'') example_client)"
proof -
  have a: "msg_code_override (example_client\<lparr>msg_code_override := Some ''label''\<rparr>) = Some ''label''"
    "map_of messages (StrKey ''label'') = Some ''Confirm label change on %s device to continue''"
    by (simp_all add: messages_def gettext_def)
  have b: "msg_code_override example_client = None"
    "map_of messages (IntKey 8) = Some ''Confirm transaction fee on %s device to continue''"
    "map_of messages (IntKey 5) = None"
    by (simp_all add: messages_def gettext_def example_client_def)
  have d: "device example_client = ''TREZOR''" by (simp add: example_client_def)
  show ?thesis
    using button_request_message [of "example_client\<lparr>msg_code_override := Some ''label''\<rparr>" 8]
      button_request_message [of example_client 8]
      button_request_message [of example_client 5]
    by (auto simp: a b d gettext_def)
qed


subsection \<open>PIN, passphrase and character requests\<close>

text \<open>
  C3, as amended. A PIN matrix request is answered with \<^verbatim>\<open>Cancel\<close> when \<^verbatim>\<open>get_pin\<close>
  returns \<^verbatim>\<open>None\<close> or the empty string and with \<^verbatim>\<open>PinMatrixAck\<close> carrying the PIN
  otherwise; a character request with \<^verbatim>\<open>Cancel\<close> when \<^verbatim>\<open>get_char\<close> returns
  \<^verbatim>\<open>None\<close> or an empty dictionary and with \<^verbatim>\<open>CharacterAck\<close> carrying the fields
  otherwise; a passphrase request with \<^verbatim>\<open>Cancel\<close> only when \<^verbatim>\<open>get_passphrase\<close>
  returns \<^verbatim>\<open>None\<close>, and with \<^verbatim>\<open>PassphraseAck\<close> carrying the passphrase otherwise,
  the empty passphrase included. Each callback gives exactly one response.
\<close>

theorem prompt_answers:
  "\<exists>pin_prompt.
     py_format (pin_matrix_message ty) [FmtStr (device s)] = Inr pin_prompt
     \<and> callback_PinMatrixRequest s (PinMatrixRequest ty) =
         (Inr (case get_pin (handler s) pin_prompt of
                 None \<Rightarrow> Cancel
               | Some pin \<Rightarrow> if pin = [] then Cancel else PinMatrixAck pin),
          emit (GetPin pin_prompt) s)
     \<and> callback_PassphraseRequest s =
         (Inr (case get_passphrase (handler s) (''Please enter your '' @ device s @ '' passphrase'') of
                 None \<Rightarrow> Cancel
               | Some passphrase \<Rightarrow> PassphraseAck passphrase),
          emit (GetPassphrase (''Please enter your '' @ device s @ '' passphrase'')) s)
     \<and> callback_CharacterRequest s msg =
         (Inr (case get_char (handler s) msg of
                 None \<Rightarrow> Cancel
               | Some char_info \<Rightarrow> if char_info = [] then Cancel else CharacterAck char_info),
          emit (GetChar msg) s)"
proof -
  obtain p where p: "py_format (pin_matrix_message ty) [FmtStr (device s)] = Inr p"
    using pin_format by blast
  have pin: "callback_PinMatrixRequest s (PinMatrixRequest ty) =
         (Inr (case get_pin (handler s) p of
                 None \<Rightarrow> Cancel
               | Some pin \<Rightarrow> if pin = [] then Cancel else PinMatrixAck pin),
          emit (GetPin p) s)"
    using p by (simp split: option.splits)
  have pass: "callback_PassphraseRequest s =
         (Inr (case get_passphrase (handler s) (''Please enter your '' @ device s @ '' passphrase'') of
                 None \<Rightarrow> Cancel
               | Some passphrase \<Rightarrow> PassphraseAck passphrase),
          emit (GetPassphrase (''Please enter your '' @ device s @ '' passphrase'')) s)"
    by (simp add: callback_PassphraseRequest_def gettext_def split: option.splits)
  have chr: "callback_CharacterRequest s msg =
         (Inr (case get_char (handler s) msg of
                 None \<Rightarrow> Cancel
               | Some char_info \<Rightarrow> if char_info = [] then Cancel else CharacterAck char_info),
          emit (GetChar msg) s)"
    by (simp add: callback_CharacterRequest_def split: option.splits)
  show ?thesis
    by (rule exI [of _ p]) (intro conjI p pin pass chr)
qed

theorem prompt_answers_witness:
  "callback_PinMatrixRequest example_client (PinMatrixRequest 1)
     = (Inr (PinMatrixAck ''1234''), emit (GetPin ''Enter your current TREZOR PIN:'') example_client)
   \<and> callback_PinMatrixRequest
       (example_client\<lparr>handler := example_handler\<lparr>get_pin := (\<lambda>prompt. Some [])\<rparr>\<rparr>)
       (PinMatrixRequest 2)
     = (Inr Cancel,
        emit (GetPin ''Enter a new TREZOR PIN:'')
          (example_client\<lparr>handler := example_handler\<lparr>get_pin := (\<lambda>prompt. Some [])\<rparr>\<rparr>))
   \<and> fst (callback_PassphraseRequest
       (example_client\<lparr>handler := example_handler\<lparr>get_passphrase := (\<lambda>prompt. None)\<rparr>\<rparr>))
     = Inr Cancel
   \<and> fst (callback_CharacterRequest example_client (CharacterRequest 0 0)) = Inr Cancel
   \<and> fst (callback_CharacterRequest
       (example_client\<lparr>handler := example_handler\<lparr>get_char := (\<lambda>msg. Some [(''done'', PyBool True)])\<rparr>\<rparr>)
       (CharacterRequest 0 0))
     = Inr (CharacterAck [(''done'', PyBool True)])"
  using prompt_answers [of 1 example_client]
    prompt_answers [of 2 "example_client\<lparr>handler := example_handler\<lparr>get_pin := (\<lambda>prompt. Some [])\<rparr>\<rparr>"]
    prompt_answers [of 1 "example_client\<lparr>handler := example_handler\<lparr>get_passphrase := (\<lambda>prompt. None)\<rparr>\<rparr>"]
    prompt_answers [of 1 example_client "CharacterRequest 0 0"]
    prompt_answers [of 1 "example_client\<lparr>handler := example_handler\<lparr>get_char := (\<lambda>msg. Some [(''done'', PyBool True)])\<rparr>\<rparr>" "CharacterRequest 0 0"]
  by (simp add: example_client_def example_handler_def pin_matrix_message_def gettext_def)

theorem empty_passphrase_counterexample:
  "get_passphrase (handler example_client) ''Please enter your TREZOR passphrase'' = Some []
   \<and> callback_PassphraseRequest example_client
       = (Inr (PassphraseAck []),
          emit (GetPassphrase ''Please enter your TREZOR passphrase'') example_client)
   \<and> fst (callback_PassphraseRequest example_client) \<noteq> Inr Cancel"
  by (simp add: callback_PassphraseRequest_def gettext_def example_client_def
      example_handler_def)


subsection \<open>Word requests\<close>

text \<open>
  C6. A word request adds one to \<^verbatim>\<open>step\<close>, asks \<^verbatim>\<open>get_word\<close> with the prompt
  ``Step N/24.  Enter seed word as explained on your DEVICE:'' where N is the decimal
  numeral of the new value of \<^verbatim>\<open>step\<close> (reading the numeral back gives that value),
  and answers with \<^verbatim>\<open>WordAck\<close> carrying the word returned, never with \<^verbatim>\<open>Cancel\<close>.
\<close>

theorem word_request_step:
  "callback_WordRequest s =
     (Inr (WordAck (get_word (handler s)
             (''Step '' @ str_int (step s + 1) @ ''/24.  Enter seed word as explained on your ''
                @ device s @ '':''))),
      s\<lparr>step := step s + 1,
        trace := trace s @ [GetWord (''Step '' @ str_int (step s + 1)
                    @ ''/24.  Enter seed word as explained on your '' @ device s @ '':'')]\<rparr>)
   \<and> step (snd (callback_WordRequest s)) = step s + 1
   \<and> py_int (str_int (step s + 1)) = Inr (step s + 1)
   \<and> fst (callback_WordRequest s) \<noteq> Inr Cancel"
  by (simp add: callback_WordRequest_def Let_def word_format emit_def py_int_str_int)

theorem word_request_step_witness:
  "callback_WordRequest (example_client\<lparr>step := 11\<rparr>) =
     (Inr (WordAck ''abandon''),
      example_client\<lparr>step := 12,
        trace := [GetWord ''Step 12/24.  Enter seed word as explained on your TREZOR:'']\<rparr>)"
  using word_request_step [of "example_client\<lparr>step := 11\<rparr>"]
  by (simp add: example_client_def example_handler_def str_int_def str_nat.simps digit_char_def)


subsection \<open>Operations that override the message\<close>

text \<open>
  C5. \<^verbatim>\<open>toggle_passphrase\<close>, \<^verbatim>\<open>change_label\<close>, \<^verbatim>\<open>change_homescreen\<close> and
  \<^verbatim>\<open>set_pin\<close> call the underlying operation on a client whose override is their tag
  (\<^verbatim>\<open>'passphrase'\<close>, \<^verbatim>\<open>'label'\<close>, \<^verbatim>\<open>'homescreen'\<close>, \<^verbatim>\<open>'remove pin'\<close> or
  \<^verbatim>\<open>'change pin'\<close>), and the override is \<^verbatim>\<open>None\<close> when they return or raise,
  whatever the underlying operation did. \<^verbatim>\<open>toggle_passphrase\<close> always calls
  \<^verbatim>\<open>apply_settings\<close> with \<^verbatim>\<open>use_passphrase\<close> the negation of the current flag:
  \<^verbatim>\<open>use_passphrase=True\<close> when passphrase protection is off.
\<close>

theorem override_restored:
  "msg_code_override (snd (toggle_passphrase apply_settings s)) = None
   \<and> msg_code_override (snd (change_label apply_settings lbl s)) = None
   \<and> msg_code_override (snd (change_homescreen apply_settings homescreen s)) = None
   \<and> msg_code_override (snd (set_pin change_pin remove s)) = None
   \<and> (\<not> passphrase_protection (features s) \<longrightarrow>
        toggle_passphrase apply_settings s =
          returns_none
            (case apply_settings [] [(''use_passphrase'', PyBool True)]
                    (s\<lparr>msg_code_override := Some ''passphrase''\<rparr>) of
               (r, s') \<Rightarrow> (r, s'\<lparr>msg_code_override := None\<rparr>)))
   \<and> toggle_passphrase apply_settings s =
        returns_none
          (case apply_settings [] [(''use_passphrase'', PyBool (\<not> passphrase_protection (features s)))]
                  (s\<lparr>msg_code_override := Some ''passphrase''\<rparr>) of
             (r, s') \<Rightarrow> (r, s'\<lparr>msg_code_override := None\<rparr>))
   \<and> change_label apply_settings lbl s =
        returns_none
          (case apply_settings [] [(''label'', PyStr lbl)]
                  (s\<lparr>msg_code_override := Some ''label''\<rparr>) of
             (r, s') \<Rightarrow> (r, s'\<lparr>msg_code_override := None\<rparr>))
   \<and> change_homescreen apply_settings homescreen s =
        returns_none
          (case apply_settings [] [(''homescreen'', PyStr homescreen)]
                  (s\<lparr>msg_code_override := Some ''homescreen''\<rparr>) of
             (r, s') \<Rightarrow> (r, s'\<lparr>msg_code_override := None\<rparr>))
   \<and> set_pin change_pin remove s =
        returns_none
          (case change_pin [PyBool remove] []
                  (s\<lparr>msg_code_override := Some (if remove then ''remove pin'' else ''change pin'')\<rparr>) of
             (r, s') \<Rightarrow> (r, s'\<lparr>msg_code_override := None\<rparr>))"
  by (auto simp: toggle_passphrase_def change_label_def change_homescreen_def set_pin_def
      returns_none_def try_finally_def split: prod.splits sum.splits)

theorem override_restored_witness:
  "\<not> passphrase_protection (features example_client)
   \<and> toggle_passphrase op_confirms example_client
       = (Inr PyNone,
          example_client\<lparr>trace := [ShowMessage ''Confirm on TREZOR device to continue'']\<rparr>)
   \<and> toggle_passphrase op_raises example_client
       = (Inl (OtherException ''device removed''), example_client)
   \<and> toggle_passphrase op_echo (example_client\<lparr>step := 5\<rparr>)
       = (Inr PyNone,
          example_client\<lparr>step := 5,
            trace := [ShowMessage ''passphrase'', ShowMessage ''use_passphrase=True'']\<rparr>)
   \<and> set_pin op_echo True example_client
       = (Inr PyNone,
          example_client\<lparr>trace := [ShowMessage ''remove pin'', ShowMessage ''True'']\<rparr>)
   \<and> change_label op_echo ''pocket'' example_client
       = (Inr PyNone,
          example_client\<lparr>trace := [ShowMessage ''label'', ShowMessage ''label=pocket'']\<rparr>)"
  using override_restored [of op_confirms example_client]
    override_restored [of op_raises example_client]
    override_restored [of op_echo "example_client\<lparr>step := 5\<rparr>"]
    override_restored [of op_echo example_client _ _ op_echo True]
    override_restored [of op_echo example_client "''pocket''"]
  by (simp add: op_confirms_def op_raises_def op_echo_def returns_none_def example_client_def
      messages_item_def messages_get_def messages_def gettext_def override_or_code_def emit_def)


subsection \<open>Clearing and closing the session\<close>

text \<open>
  C8. \<^verbatim>\<open>clear_session\<close> returns normally whatever the inherited session clear does;
  when that raises, the exception is logged with ``clear_session: ignoring error''.
  \<^verbatim>\<open>close\<close> returns normally whenever the transport's \<^verbatim>\<open>close\<close> does, whether
  or not the session clear raised.
\<close>

theorem clear_session_never_raises:
  "fst (clear_session super_clear_session s) = Inr PyNone
   \<and> (\<forall>e s'. super_clear_session (print_error [ArgStr ''clear session:'', ArgSelf] s) = (Inl e, s')
        \<longrightarrow> clear_session super_clear_session s
            = (Inr PyNone, print_error [ArgStr ''clear_session: ignoring error'', ArgStrOf e] s'))
   \<and> (\<forall>v. fst (transport_close (snd (clear_session super_clear_session
                                        (print_error [ArgStr ''closing client''] s)))) = Inr v
        \<longrightarrow> fst (close super_clear_session transport_close s) = Inr PyNone)"
  by (auto simp: clear_session_def close_def returns_none_def split: prod.splits sum.splits)

theorem clear_session_never_raises_witness:
  "clear_session (op_raises [] []) example_client
     = (Inr PyNone,
        example_client\<lparr>trace :=
          [PrintError [ArgStr ''clear session:'', ArgSelf],
           PrintError [ArgStr ''clear_session: ignoring error'',
                       ArgStrOf (OtherException ''device removed'')]]\<rparr>)
   \<and> fst (close (op_raises [] []) (op_returns [] []) example_client) = Inr PyNone"
  using clear_session_never_raises [of "op_raises [] []" example_client "op_returns [] []"]
  by (simp add: op_raises_def op_returns_def print_error_def emit_def example_client_def)


subsection \<open>Firmware versions\<close>

text \<open>
  C9. \<^verbatim>\<open>firmware_version()\<close> is the triple of \<^verbatim>\<open>major_version\<close>,
  \<^verbatim>\<open>minor_version\<close> and \<^verbatim>\<open>patch_version\<close> of the device's features, and
  \<^verbatim>\<open>atleast_version(major, minor, patch)\<close> is negative, zero or positive (in fact
  \<open>-1\<close>, \<open>0\<close> or \<open>1\<close>) according to whether that triple is less than, equal to or
  greater than \<open>(major, minor, patch)\<close> in the lexicographic order of triples: the major
  versions decide, then the minor versions, then the patch versions.
\<close>

theorem atleast_version_ordering:
  "firmware_version s
     = (major_version (features s), minor_version (features s), patch_version (features s))
   \<and> (atleast_version s major minor patch < 0 \<longleftrightarrow>
        (major_version (features s), minor_version (features s), patch_version (features s))
          < (major, minor, patch))
   \<and> (atleast_version s major minor patch = 0 \<longleftrightarrow>
        (major_version (features s), minor_version (features s), patch_version (features s))
          = (major, minor, patch))
   \<and> (atleast_version s major minor patch > 0 \<longleftrightarrow>
        (major_version (features s), minor_version (features s), patch_version (features s))
          > (major, minor, patch))
   \<and> (atleast_version s major minor patch < 0 \<longleftrightarrow>
        major_version (features s) < major
        \<or> (major_version (features s) = major
            \<and> (minor_version (features s) < minor
                \<or> (minor_version (features s) = minor \<and> patch_version (features s) < patch))))
   \<and> (atleast_version s major minor patch > 0 \<longleftrightarrow>
        major_version (features s) > major
        \<or> (major_version (features s) = major
            \<and> (minor_version (features s) > minor
                \<or> (minor_version (features s) = minor \<and> patch_version (features s) > patch))))
   \<and> atleast_version s major minor patch \<in> {- 1, 0, 1}"
  by (auto simp: atleast_version_def firmware_version_def cmp_int_def less_prod_def less_eq_prod_def)

theorem atleast_version_ordering_witness:
  "firmware_version example_client = (1, 3, 4)
   \<and> atleast_version example_client 1 3 4 = 0
   \<and> atleast_version example_client 1 4 0 < 0
   \<and> atleast_version example_client 1 3 0 > 0
   \<and> atleast_version example_client 0 9 9 > 0
   \<and> atleast_version (example_client\<lparr>features := (features example_client)\<lparr>major_version := 2\<rparr>\<rparr>)
         1 3 4 > 0"
  using atleast_version_ordering [of example_client 1 3 4]
    atleast_version_ordering [of example_client 1 4 0]
    atleast_version_ordering [of example_client 1 3 0]
    atleast_version_ordering [of example_client 0 9 9]
    atleast_version_ordering
      [of "example_client\<lparr>features := (features example_client)\<lparr>major_version := 2\<rparr>\<rparr>" 1 3 4]
  by (simp add: example_client_def less_prod_def less_eq_prod_def)


subsection \<open>Wrapped methods\<close>

lemma wrap_methods_loop_total:
  "set ms \<subseteq> dom cls \<Longrightarrow> \<exists>cls'. wrap_methods_loop ms cls = (Inr PyNone, cls')"
proof (induction ms arbitrary: cls)
  case Nil
  show ?case by simp
next
  case (Cons m ms)
  from Cons.prems obtain func where f: "cls m = Some func" by auto
  have "set ms \<subseteq> dom (cls(m \<mapsto> wrapper func))" using Cons.prems by auto
  from Cons.IH [OF this] obtain c
    where "wrap_methods_loop ms (cls(m \<mapsto> wrapper func)) = (Inr PyNone, c)" by blast
  then show ?case using f by simp
qed

lemma wrap_methods_loop_other:
  "wrap_methods_loop ms cls = (Inr PyNone, cls') \<Longrightarrow> m \<notin> set ms \<Longrightarrow> cls' m = cls m"
proof (induction ms arbitrary: cls)
  case Nil
  then show ?case by simp
next
  case (Cons a ms)
  then show ?case by (auto split: option.splits)
qed

lemma wrap_methods_loop_wrapped:
  "wrap_methods_loop ms cls = (Inr PyNone, cls') \<Longrightarrow> distinct ms \<Longrightarrow> m \<in> set ms \<Longrightarrow>
   cls m = Some func \<Longrightarrow> cls' m = Some (wrapper func)"
proof (induction ms arbitrary: cls)
  case Nil
  then show ?case by simp
next
  case (Cons a ms)
  show ?case
  proof (cases "a = m")
    case True
    with Cons.prems have "wrap_methods_loop ms (cls(m \<mapsto> wrapper func)) = (Inr PyNone, cls')"
      and "m \<notin> set ms" by auto
    from wrap_methods_loop_other [OF this] show ?thesis by simp
  next
    case False
    with Cons.prems obtain g where g: "cls a = Some g"
      and run: "wrap_methods_loop ms (cls(a \<mapsto> wrapper g)) = (Inr PyNone, cls')"
      by (auto split: option.splits)
    have "(cls(a \<mapsto> wrapper g)) m = Some func" using False Cons.prems by simp
    from Cons.IH [OF run _ _ this] show ?thesis using Cons.prems False by simp
  qed
qed

lemma distinct_wrapped_method_names: "distinct wrapped_method_names"
  by (simp add: wrapped_method_names_def)

lemma wrapper_trace:
  "trace (snd (wrapper func args kwargs s)) = trace (snd (func args kwargs s)) @ [Finished]"
  by (simp add: wrapper_def try_finally_def handler_finished_def emit_def split: prod.splits)

text \<open>
  C2. The methods \<^verbatim>\<open>wrap_methods\<close> wraps are \<^verbatim>\<open>apply_settings\<close>,
  \<^verbatim>\<open>change_pin\<close>, \<^verbatim>\<open>decrypt_message\<close>, \<^verbatim>\<open>get_address\<close>, \<^verbatim>\<open>get_public_node\<close>,
  \<^verbatim>\<open>load_device_by_mnemonic\<close>, \<^verbatim>\<open>load_device_by_xprv\<close>, \<^verbatim>\<open>recovery_device\<close>,
  \<^verbatim>\<open>reset_device\<close>, \<^verbatim>\<open>sign_message\<close>, \<^verbatim>\<open>sign_tx\<close> and \<^verbatim>\<open>wipe_device\<close>. On a
  class that has these twelve, \<^verbatim>\<open>wrap_methods\<close> succeeds, replaces each of them by its
  wrapped version and leaves every other attribute alone; one call of the wrapped
  version, on any arguments and any client, adds exactly one \<^verbatim>\<open>finished()\<close> to what
  the underlying method did itself, after it, whether that method returned or raised.
\<close>

theorem wrapped_methods_finish_once:
  assumes "set [''apply_settings'', ''change_pin'', ''decrypt_message'', ''get_address'',
            ''get_public_node'', ''load_device_by_mnemonic'', ''load_device_by_xprv'',
            ''recovery_device'', ''reset_device'', ''sign_message'', ''sign_tx'',
            ''wipe_device''] \<subseteq> dom cls"
    and "m \<in> set [''apply_settings'', ''change_pin'', ''decrypt_message'', ''get_address'',
            ''get_public_node'', ''load_device_by_mnemonic'', ''load_device_by_xprv'',
            ''recovery_device'', ''reset_device'', ''sign_message'', ''sign_tx'',
            ''wipe_device'']"
  shows "\<exists>func wrapped cls'.
           cls m = Some func \<and> wrap_methods cls = (Inr PyNone, cls') \<and> cls' m = Some wrapped
           \<and> (\<forall>args kwargs s.
                 fst (wrapped args kwargs s) = fst (func args kwargs s)
                 \<and> trace (snd (wrapped args kwargs s)) = trace (snd (func args kwargs s)) @ [Finished]
                 \<and> count_list (trace (snd (wrapped args kwargs s))) Finished
                     = count_list (trace (snd (func args kwargs s))) Finished + 1)
           \<and> (\<forall>other. other \<notin> set [''apply_settings'', ''change_pin'', ''decrypt_message'', ''get_address'',
            ''get_public_node'', ''load_device_by_mnemonic'', ''load_device_by_xprv'',
            ''recovery_device'', ''reset_device'', ''sign_message'', ''sign_tx'',
            ''wipe_device''] \<longrightarrow> cls' other = cls other)"
proof -
  have names: "wrapped_method_names = [''apply_settings'', ''change_pin'', ''decrypt_message'', ''get_address'',
            ''get_public_node'', ''load_device_by_mnemonic'', ''load_device_by_xprv'',
            ''recovery_device'', ''reset_device'', ''sign_message'', ''sign_tx'',
            ''wipe_device'']"
    by (simp add: wrapped_method_names_def)
  from assms obtain func where f: "cls m = Some func" by auto
  from wrap_methods_loop_total [of wrapped_method_names cls] assms(1) obtain cls'
    where run: "wrap_methods cls = (Inr PyNone, cls')" by (auto simp: wrap_methods_def names)
  have w: "cls' m = Some (wrapper func)"
    using wrap_methods_loop_wrapped [of wrapped_method_names cls cls' m func]
      distinct_wrapped_method_names assms(2) f run
    by (simp add: wrap_methods_def names)
  have o: "cls' other = cls other" if "other \<notin> set [''apply_settings'', ''change_pin'', ''decrypt_message'', ''get_address'',
            ''get_public_node'', ''load_device_by_mnemonic'', ''load_device_by_xprv'',
            ''recovery_device'', ''reset_device'', ''sign_message'', ''sign_tx'',
            ''wipe_device'']" for other
    using wrap_methods_loop_other [of wrapped_method_names cls cls' other] run that
    by (simp add: wrap_methods_def names)
  have r: "fst (wrapper func args kwargs s) = fst (func args kwargs s)" for args kwargs s
    by (simp add: wrapper_def try_finally_def split: prod.splits)
  show ?thesis
    by (intro exI [of _ func] exI [of _ "wrapper func"] exI [of _ cls'])
      (simp add: f run w o r wrapper_trace)
qed

theorem wrapped_methods_finish_once_witness:
  "set [''apply_settings'', ''change_pin'', ''decrypt_message'', ''get_address'',
            ''get_public_node'', ''load_device_by_mnemonic'', ''load_device_by_xprv'',
            ''recovery_device'', ''reset_device'', ''sign_message'', ''sign_tx'',
            ''wipe_device''] \<subseteq> dom example_class
   \<and> (\<exists>wrapped cls'.
         wrap_methods example_class = (Inr PyNone, cls') \<and> cls' ''sign_tx'' = Some wrapped
         \<and> fst (wrapped [] [] example_client) = Inl (OtherException ''device removed'')
         \<and> count_list (trace (snd (wrapped [] [] example_client))) Finished = 1)
   \<and> (\<exists>wrapped cls'.
         wrap_methods example_class = (Inr PyNone, cls') \<and> cls' ''wipe_device'' = Some wrapped
         \<and> fst (wrapped [] [] example_client) = Inr (PyStr ''ok'')
         \<and> count_list (trace (snd (wrapped [] [] example_client))) Finished = 1)
   \<and> (\<exists>wrapped cls'.
         wrap_methods example_class = (Inr PyNone, cls') \<and> cls' ''apply_settings'' = Some wrapped
         \<and> count_list (trace (snd (wrapped [] [] example_client))) Finished = 1)"
proof -
  have d: "set [''apply_settings'', ''change_pin'', ''decrypt_message'', ''get_address'',
            ''get_public_node'', ''load_device_by_mnemonic'', ''load_device_by_xprv'',
            ''recovery_device'', ''reset_device'', ''sign_message'', ''sign_tx'',
            ''wipe_device''] \<subseteq> dom example_class"
    by (auto simp: example_class_def dom_def)
  have m1: "''sign_tx'' \<in> set [''apply_settings'', ''change_pin'', ''decrypt_message'', ''get_address'',
            ''get_public_node'', ''load_device_by_mnemonic'', ''load_device_by_xprv'',
            ''recovery_device'', ''reset_device'', ''sign_message'', ''sign_tx'',
            ''wipe_device'']"
    and m2: "''wipe_device'' \<in> set [''apply_settings'', ''change_pin'', ''decrypt_message'', ''get_address'',
            ''get_public_node'', ''load_device_by_mnemonic'', ''load_device_by_xprv'',
            ''recovery_device'', ''reset_device'', ''sign_message'', ''sign_tx'',
            ''wipe_device'']"
    and m3: "''apply_settings'' \<in> set [''apply_settings'', ''change_pin'', ''decrypt_message'', ''get_address'',
            ''get_public_node'', ''load_device_by_mnemonic'', ''load_device_by_xprv'',
            ''recovery_device'', ''reset_device'', ''sign_message'', ''sign_tx'',
            ''wipe_device'']"
    by simp_all
  have t: "op_raises [] [] example_client = (Inl (OtherException ''device removed''), example_client)"
    "op_returns [] [] example_client = (Inr (PyStr ''ok''), example_client)"
    "trace example_client = []"
    by (simp_all add: op_raises_def op_returns_def example_client_def)
  have c: "example_class ''sign_tx'' = Some op_raises"
    "example_class ''wipe_device'' = Some op_returns"
    "example_class ''apply_settings'' = Some op_returns"
    by (simp_all add: example_class_def)
  show ?thesis
    using wrapped_methods_finish_once [OF d m1] wrapped_methods_finish_once [OF d m2]
      wrapped_methods_finish_once [OF d m3] d
    by (auto simp: c t)
qed


subsection \<open>The wrapper is transparent\<close>

text \<open>
  C10. A wrapped method gives the outcome of the underlying method, its value or its
  exception, and leaves the client as the underlying method left it but for one more
  \<^verbatim>\<open>finished()\<close> at the end of the trace.
\<close>

theorem wrapper_transparent:
  "wrapper func args kwargs s =
     (fst (func args kwargs s),
      (snd (func args kwargs s))\<lparr>trace := trace (snd (func args kwargs s)) @ [Finished]\<rparr>)"
  by (simp add: wrapper_def try_finally_def handler_finished_def emit_def split: prod.splits)

theorem wrapper_transparent_witness:
  "wrapper op_raises [] [] example_client
     = (Inl (OtherException ''device removed''), example_client\<lparr>trace := [Finished]\<rparr>)
   \<and> wrapper op_returns [PyStr ''Bitcoin''] [] example_client
     = (Inr (PyStr ''ok''), example_client\<lparr>trace := [Finished]\<rparr>)"
  using wrapper_transparent [of op_raises "[]" "[]" example_client]
    wrapper_transparent [of op_returns "[PyStr ''Bitcoin'']" "[]" example_client]
  by (simp add: op_raises_def op_returns_def example_client_def)

end
